theory Spec2Isabelle
  imports Main "HOL-Library.Word"
begin

unbundle bit_operations_syntax

section \<open>The fwmark server of netd: one request on the fwmark socket\<close>

text \<open>
  The development follows \<^verbatim>\<open>server/FwmarkServer.cpp\<close>. The function
  \<^verbatim>\<open>FwmarkServer::processClient\<close> receives one command and one socket descriptor from a
  client, reads the fwmark of that socket, computes a new fwmark in a \<^verbatim>\<open>switch\<close> over
  the command id and stores it with one \<^verbatim>\<open>setsockopt\<close>. Everything the function does
  to the outside (socket options, the traffic tagger, the event listener) is recorded, in
  order, in a log, so that statements such as "no socket option is touched" can be made.
\<close>

subsection \<open>Platform constants\<close>

text \<open>
  The error numbers, address families and protocol numbers of Linux
  (\<^verbatim>\<open>errno.h\<close>, \<^verbatim>\<open>sys/socket.h\<close>, \<^verbatim>\<open>netinet/in.h\<close>). The function returns
  \<^verbatim>\<open>0\<close>, a negated error number, or whatever a collaborator returned; C's \<^verbatim>\<open>int\<close>
  is modelled by \<open>int\<close> (nothing is added or multiplied, only negated).
\<close>

type_synonym errno = int

definition EPERM :: errno where "EPERM = 1"
definition EBADF :: errno where "EBADF = 9"
definition EPROTO :: errno where "EPROTO = 71"
definition EBADMSG :: errno where "EBADMSG = 74"
definition EAFNOSUPPORT :: errno where "EAFNOSUPPORT = 97"
definition ESHUTDOWN :: errno where "ESHUTDOWN = 108"

definition AF_INET6 :: int where "AF_INET6 = 10"
definition IPPROTO_UDP :: int where "IPPROTO_UDP = 17"

type_synonym uid_t = "32 word"

text \<open>
  \<^verbatim>\<open>IN6_IS_ADDR_LINKLOCAL\<close> of \<^verbatim>\<open>netinet/in.h\<close>: the address starts with the ten bits
  of \<^verbatim>\<open>fe80::/10\<close>. The sixteen bytes of \<^verbatim>\<open>s6_addr\<close> are a list.
\<close>

definition IN6_IS_ADDR_LINKLOCAL :: "8 word list \<Rightarrow> bool" where
  "IN6_IS_ADDR_LINKLOCAL a =
     (case a of
        b0 # b1 # _ \<Rightarrow> b0 = 0xfe \<and> (b1 AND 0xc0) = 0x80
      | _ \<Rightarrow> False)"

subsection \<open>Data of the protocol\<close>

text \<open>
  Modelled from the spec: the sentinel \<^verbatim>\<open>NETID_UNSET\<close> comes from
  \<^verbatim>\<open>netd_resolv/resolv.h\<close> and the permission \<^verbatim>\<open>PERMISSION_NONE\<close> from
  \<^verbatim>\<open>Permission.h\<close>, neither of which is part of the sources at hand. The data model
  says that a fresh socket carries the all-zero marker and that this marker is the unset
  one, with permission NONE: both are zero. A permission is a bit mask as wide as the
  marker's permission field, two bits (NONE, NETWORK, SYSTEM).
\<close>

type_synonym Permission = "2 word"

definition NETID_UNSET :: "32 word" where "NETID_UNSET = 0"
definition PERMISSION_NONE :: Permission where "PERMISSION_NONE = 0"

text \<open>
  Modelled from the spec: \<^verbatim>\<open>FwmarkCommand.h\<close> (the command ids, the command and the
  connect info) is not part of the sources at hand. The ids are the twelve the interface
  section lists; \<open>UNKNOWN_CMD\<close> stands for every other value a client may put on the
  wire. The command has the four fields of the wire format.
\<close>

datatype CmdId =
    ON_ACCEPT | ON_CONNECT | SELECT_NETWORK | PROTECT_FROM_VPN | SELECT_FOR_USER
  | QUERY_USER_ACCESS | ON_CONNECT_COMPLETE | TAG_SOCKET | UNTAG_SOCKET
  | ON_SENDTO | ON_SENDMSG | ON_SENDMMSG
  | UNKNOWN_CMD "32 word"

record FwmarkCommand =
  cmdId :: CmdId
  uid :: uid_t
  netId :: "32 word"
  trafficCtrlInfo :: "32 word"

text \<open>
  The address of the connect info is a union of socket addresses; the code reads it
  through its \<^verbatim>\<open>sin6\<close> member whatever it holds, and so does the model.
\<close>

record sockaddr_in6 =
  sin6_family :: "16 word"
  sin6_port :: "16 word"
  sin6_flowinfo :: "32 word"
  sin6_addr :: "8 word list"
  sin6_scope_id :: "32 word"

record FwmarkConnectInfo =
  addr :: sockaddr_in6
  error :: int
  latencyMs :: int

text \<open>
  Modelled from the spec: \<^verbatim>\<open>Fwmark.h\<close> is not part of the sources at hand. The marker
  has the four fields of the data model: a network id in the 16-bit range, the two flags
  and the permission bits. Storing a wider value in \<open>netId\<close> keeps its low 16 bits, as
  an assignment to the bit-field does.
\<close>

record Fwmark =
  netId :: "16 word"
  explicitlySelected :: bool
  protectedFromVpn :: bool
  permission :: Permission

subsection \<open>Collaborators\<close>

text \<open>
  The network controller (\<^verbatim>\<open>NetworkController.h\<close>) answers questions about users and
  networks. It is a parameter of the model: one function per method the server calls.
\<close>

record NetworkController =
  getPermissionForUser :: "uid_t \<Rightarrow> Permission"
  checkUserNetworkAccess :: "uid_t \<Rightarrow> 32 word \<Rightarrow> int"
  canProtect :: "uid_t \<Rightarrow> bool"
  getNetworkForInterface :: "32 word \<Rightarrow> 32 word"
  getNetworkForConnect :: "uid_t \<Rightarrow> 32 word"
  getDefaultNetwork :: "32 word"
  isVirtualNetwork :: "32 word \<Rightarrow> bool"
  getNetworkForUser :: "uid_t \<Rightarrow> 32 word"

text \<open>
  The server object. \<open>mEventReporter\<close> tells whether \<^verbatim>\<open>getNetdEventListener()\<close>
  returns a listener; \<open>mRedirectSocketCalls\<close> is the property read by the constructor.
\<close>

record FwmarkServer =
  mNetworkController :: NetworkController
  mEventReporter :: bool
  mRedirectSocketCalls :: bool

text \<open>
  Declarations the function uses whose definitions are elsewhere; they are parameters:
  the sizes of the two structures, \<^verbatim>\<open>PERMISSION_SYSTEM\<close>,
  \<^verbatim>\<open>FwmarkCommand::isSupportedFamily\<close>, the two functions of the traffic tagger, and
  \<^verbatim>\<open>getnameinfo\<close> (numeric host and port of an address, \<open>None\<close> when it fails; the
  port already converted to a number).
\<close>

record decls =
  sizeof_command :: nat
  sizeof_connectInfo :: nat
  PERMISSION_SYSTEM :: Permission
  isSupportedFamily :: "int \<Rightarrow> bool"
  libnetd_updatable_tagSocket :: "int \<Rightarrow> 32 word \<Rightarrow> uid_t \<Rightarrow> uid_t \<Rightarrow> int"
  libnetd_updatable_untagSocket :: "int \<Rightarrow> int"
  getnameinfo :: "sockaddr_in6 \<Rightarrow> (string \<times> nat) option"

record SocketClient =
  getUid :: uid_t

subsection \<open>The kernel side: sockets and the log\<close>

text \<open>
  What the kernel answers for one descriptor: the result of reading \<^verbatim>\<open>SO_DOMAIN\<close>,
  \<^verbatim>\<open>SO_MARK\<close> and \<^verbatim>\<open>SO_PROTOCOL\<close> (\<open>Inl\<close> the error number when
  \<^verbatim>\<open>getsockopt\<close> returns \<^verbatim>\<open>-1\<close>), and the error number with which writing
  \<^verbatim>\<open>SO_MARK\<close> fails, if it does. A write that succeeds replaces the mark.
\<close>

record sock =
  so_domain :: "errno + int"
  so_mark :: "errno + Fwmark"
  so_protocol :: "errno + int"
  set_mark_errno :: "errno option"

datatype optname = SO_DOMAIN | SO_MARK | SO_PROTOCOL

datatype action =
    Getsockopt int optname
  | Setsockopt int Fwmark
  | TagSocket int "32 word" uid_t uid_t
  | UntagSocket int
  | ConnectEvent "16 word" int int string nat uid_t

record world =
  socks :: "int \<Rightarrow> sock"
  log :: "action list"

definition getsockopt_domain :: "int \<Rightarrow> world \<Rightarrow> (errno + int) \<times> world" where
  "getsockopt_domain fd w =
     (so_domain (socks w fd), w\<lparr>log := log w @ [Getsockopt fd SO_DOMAIN]\<rparr>)"

definition getsockopt_mark :: "int \<Rightarrow> world \<Rightarrow> (errno + Fwmark) \<times> world" where
  "getsockopt_mark fd w =
     (so_mark (socks w fd), w\<lparr>log := log w @ [Getsockopt fd SO_MARK]\<rparr>)"

definition getsockopt_protocol :: "int \<Rightarrow> world \<Rightarrow> (errno + int) \<times> world" where
  "getsockopt_protocol fd w =
     (so_protocol (socks w fd), w\<lparr>log := log w @ [Getsockopt fd SO_PROTOCOL]\<rparr>)"

definition setsockopt_mark :: "int \<Rightarrow> Fwmark \<Rightarrow> world \<Rightarrow> errno option \<times> world" where
  "setsockopt_mark fd fwmark w =
     (case set_mark_errno (socks w fd) of
        Some e \<Rightarrow> (Some e, w\<lparr>log := log w @ [Setsockopt fd fwmark]\<rparr>)
      | None \<Rightarrow>
          (None, w\<lparr>socks := (socks w)(fd := (socks w fd)\<lparr>so_mark := Inr fwmark\<rparr>),
                    log := log w @ [Setsockopt fd fwmark]\<rparr>))"

subsection \<open>The message as received\<close>

text \<open>
  The outcome of \<^verbatim>\<open>ReceiveFileDescriptorVector\<close>: the length it returns, \<^verbatim>\<open>errno\<close>
  when that is negative, the descriptors, and the command and connect info that the two
  \<^verbatim>\<open>memcpy\<close>s take out of the buffer. The buffer is not cleared before the call, so
  for a short message the two structures hold whatever was there: they are arbitrary.
\<close>

record received =
  messageLength :: int
  recv_errno :: errno
  command :: FwmarkCommand
  connectInfo :: FwmarkConnectInfo
  received_fds :: "int list"

subsection \<open>hasDestinationAddress\<close>

definition hasDestinationAddress :: "CmdId \<Rightarrow> bool \<Rightarrow> bool" where
  "hasDestinationAddress cmd redirectSocketCalls =
     (if redirectSocketCalls
      then (cmd = ON_SENDTO \<or> cmd = ON_CONNECT \<or> cmd = ON_SENDMSG \<or> cmd = ON_SENDMMSG \<or>
            cmd = ON_CONNECT_COMPLETE)
      else (cmd = ON_CONNECT \<or> cmd = ON_CONNECT_COMPLETE))"

definition expectedLen :: "decls \<Rightarrow> FwmarkServer \<Rightarrow> FwmarkCommand \<Rightarrow> nat" where
  "expectedLen D srv cmd =
     (if hasDestinationAddress (cmdId cmd) (mRedirectSocketCalls srv)
      then sizeof_command D + sizeof_connectInfo D
      else sizeof_command D)"

subsection \<open>processClient\<close>

text \<open>
  The \<^verbatim>\<open>switch\<close> either returns a status at once or breaks out with the marker and the
  permission to store.
\<close>

datatype flow = Return int | Break Fwmark Permission

definition processClient_switch ::
  "decls \<Rightarrow> FwmarkServer \<Rightarrow> SocketClient \<Rightarrow> FwmarkCommand \<Rightarrow> FwmarkConnectInfo \<Rightarrow>
   int \<Rightarrow> int \<Rightarrow> Fwmark \<Rightarrow> Permission \<Rightarrow> world \<Rightarrow> flow \<times> world" where
  "processClient_switch D srv client cmd ci socketFd family fwmark perm w =
     (let nc = mNetworkController srv in
      case cmdId cmd of
        ON_ACCEPT \<Rightarrow> (Break fwmark (perm OR Fwmark.permission fwmark), w)
      | ON_CONNECT \<Rightarrow>
          (if \<not> explicitlySelected fwmark then
             (if family = AF_INET6 \<and> sin6_scope_id (addr ci) \<noteq> 0 \<and>
                 IN6_IS_ADDR_LINKLOCAL (sin6_addr (addr ci))
              then (Break (fwmark\<lparr>Fwmark.netId :=
                             ucast (getNetworkForInterface nc (sin6_scope_id (addr ci)))\<rparr>) perm, w)
              else if \<not> protectedFromVpn fwmark
              then (Break (fwmark\<lparr>Fwmark.netId :=
                             ucast (getNetworkForConnect nc (getUid client))\<rparr>) perm, w)
              else if \<not> isVirtualNetwork nc (ucast (Fwmark.netId fwmark))
              then (Break (fwmark\<lparr>Fwmark.netId := ucast (getDefaultNetwork nc)\<rparr>) perm, w)
              else (Break fwmark perm, w))
           else (Break fwmark perm, w))
      | ON_CONNECT_COMPLETE \<Rightarrow>
          (case getsockopt_protocol socketFd w of
             (Inl e, w1) \<Rightarrow> (Break fwmark perm, w1)
           | (Inr socketProto, w1) \<Rightarrow>
               if socketProto = IPPROTO_UDP then (Break fwmark perm, w1)
               else if mEventReporter srv
               then (Break fwmark perm,
                     w1\<lparr>log := log w1 @
                        [case getnameinfo D (addr ci) of
                           Some (addrstr, port) \<Rightarrow>
                             ConnectEvent (Fwmark.netId fwmark) (error ci) (latencyMs ci)
                               addrstr port (getUid client)
                         | None \<Rightarrow>
                             ConnectEvent (Fwmark.netId fwmark) (error ci) (latencyMs ci)
                               [] 0 (getUid client)]\<rparr>)
               else (Break fwmark perm, w1))
      | ON_SENDMMSG \<Rightarrow> (Return 0, w)
      | ON_SENDMSG \<Rightarrow> (Return 0, w)
      | ON_SENDTO \<Rightarrow> (Return 0, w)
      | SELECT_NETWORK \<Rightarrow>
          (let fwmark1 = fwmark\<lparr>Fwmark.netId := ucast (FwmarkCommand.netId cmd)\<rparr> in
           if FwmarkCommand.netId cmd = NETID_UNSET
           then (Break (fwmark1\<lparr>explicitlySelected := False, protectedFromVpn := False\<rparr>)
                   PERMISSION_NONE, w)
           else
             (let ret = checkUserNetworkAccess nc (getUid client) (FwmarkCommand.netId cmd) in
              if ret \<noteq> 0 then (Return ret, w)
              else (Break (fwmark1\<lparr>explicitlySelected := True,
                                   protectedFromVpn := canProtect nc (getUid client)\<rparr>) perm, w)))
      | PROTECT_FROM_VPN \<Rightarrow>
          (if \<not> canProtect nc (getUid client) then (Return (- EPERM), w)
           else
             (let fwmark1 =
                    (if \<not> explicitlySelected fwmark \<and>
                        isVirtualNetwork nc (ucast (Fwmark.netId fwmark))
                     then fwmark\<lparr>Fwmark.netId := ucast (getDefaultNetwork nc)\<rparr>
                     else fwmark)
              in (Break (fwmark1\<lparr>protectedFromVpn := True\<rparr>)
                    (perm OR Fwmark.permission fwmark), w)))
      | SELECT_FOR_USER \<Rightarrow>
          (if (perm AND PERMISSION_SYSTEM D) \<noteq> PERMISSION_SYSTEM D then (Return (- EPERM), w)
           else (Break (fwmark\<lparr>Fwmark.netId := ucast (getNetworkForUser nc (uid cmd)),
                               protectedFromVpn := True\<rparr>) perm, w))
      | TAG_SOCKET \<Rightarrow>
          (let uid1 = (if uid cmd = - 1 then getUid client else uid cmd) in
           (Return (libnetd_updatable_tagSocket D socketFd (trafficCtrlInfo cmd) uid1
                      (getUid client)),
            w\<lparr>log := log w @
                 [TagSocket socketFd (trafficCtrlInfo cmd) uid1 (getUid client)]\<rparr>))
      | UNTAG_SOCKET \<Rightarrow>
          (Return (libnetd_updatable_untagSocket D socketFd),
           w\<lparr>log := log w @ [UntagSocket socketFd]\<rparr>)
      | QUERY_USER_ACCESS \<Rightarrow> (Return (- EPROTO), w)
      | UNKNOWN_CMD v \<Rightarrow> (Return (- EPROTO), w))"

text \<open>
  The last two lines are the \<^verbatim>\<open>default\<close> label: the \<^verbatim>\<open>switch\<close> has no case for
  \<^verbatim>\<open>QUERY_USER_ACCESS\<close>, which \<open>processClient\<close> answers before it gets there.
\<close>

text \<open>
  After the \<^verbatim>\<open>switch\<close>: the permission goes into the marker and the marker is stored
  with one \<^verbatim>\<open>setsockopt\<close>.
\<close>

definition processClient_store :: "int \<Rightarrow> flow \<times> world \<Rightarrow> int \<times> world" where
  "processClient_store socketFd fw =
     (case fw of
        (Return r, w) \<Rightarrow> (r, w)
      | (Break fwmark perm, w) \<Rightarrow>
          (case setsockopt_mark socketFd (fwmark\<lparr>Fwmark.permission := perm\<rparr>) w of
             (Some e, w1) \<Rightarrow> (- e, w1)
           | (None, w1) \<Rightarrow> (0, w1)))"

text \<open>
  The whole function. The result is the status, the value left in \<^verbatim>\<open>*socketFd\<close>
  (\<open>- 1\<close>, as the caller initialises it, until a descriptor is taken over) and the world
  afterwards.
\<close>

definition processClient ::
  "decls \<Rightarrow> FwmarkServer \<Rightarrow> SocketClient \<Rightarrow> received \<Rightarrow> world \<Rightarrow> int \<times> int \<times> world" where
  "processClient D srv client rcv w =
     (if messageLength rcv < 0 then (- recv_errno rcv, - 1, w)
      else if messageLength rcv = 0 then (- ESHUTDOWN, - 1, w)
      else if messageLength rcv \<noteq> int (expectedLen D srv (command rcv))
      then (- EBADMSG, - 1, w)
      else
        (let perm = getPermissionForUser (mNetworkController srv) (getUid client) in
         if cmdId (command rcv) = QUERY_USER_ACCESS then
           (if (perm AND PERMISSION_SYSTEM D) \<noteq> PERMISSION_SYSTEM D then (- EPERM, - 1, w)
            else (checkUserNetworkAccess (mNetworkController srv) (uid (command rcv))
                    (FwmarkCommand.netId (command rcv)), - 1, w))
         else
           (case received_fds rcv of
              [fd] \<Rightarrow>
                (if fd < 0 then (- EBADF, - 1, w)
                 else
                   (case getsockopt_domain fd w of
                      (Inl e, w1) \<Rightarrow> (- e, fd, w1)
                    | (Inr family, w1) \<Rightarrow>
                        if \<not> isSupportedFamily D family then (- EAFNOSUPPORT, fd, w1)
                        else
                          (case getsockopt_mark fd w1 of
                             (Inl e, w2) \<Rightarrow> (- e, fd, w2)
                           | (Inr fwmark, w2) \<Rightarrow>
                               (case processClient_store fd
                                       (processClient_switch D srv client (command rcv)
                                          (connectInfo rcv) fd family fwmark perm w2) of
                                  (r, w3) \<Rightarrow> (r, fd, w3)))))
            | _ \<Rightarrow> (- EBADF, - 1, w))))"

subsection \<open>Reading the log, and the requests that reach the switch\<close>

text \<open>The markers stored by the actions of a log, with their descriptors, in order.\<close>

fun writes :: "action list \<Rightarrow> (int \<times> Fwmark) list" where
  "writes [] = []"
| "writes (Setsockopt fd fwmark # as) = (fd, fwmark) # writes as"
| "writes (_ # as) = writes as"

text \<open>The calls of the traffic tagger in a log.\<close>

fun tagger_calls :: "action list \<Rightarrow> action list" where
  "tagger_calls [] = []"
| "tagger_calls (TagSocket fd info u c # as) = TagSocket fd info u c # tagger_calls as"
| "tagger_calls (UntagSocket fd # as) = UntagSocket fd # tagger_calls as"
| "tagger_calls (_ # as) = tagger_calls as"

text \<open>
  A message is well framed when \<open>processClient\<close> gets past its length checks: the
  length is positive and is the expected one.
\<close>

definition well_framed :: "decls \<Rightarrow> FwmarkServer \<Rightarrow> received \<Rightarrow> bool" where
  "well_framed D srv rcv \<longleftrightarrow>
     0 < messageLength rcv \<and> messageLength rcv = int (expectedLen D srv (command rcv))"

text \<open>
  A request reaches the \<^verbatim>\<open>switch\<close> with descriptor \<open>fd\<close>, family \<open>family\<close> and
  marker \<open>fwmark\<close> when it is well framed, is no \<^verbatim>\<open>QUERY_USER_ACCESS\<close>, brings
  exactly the descriptor \<open>fd\<close>, which is not negative, and the kernel answers the two
  reads with a supported \<open>family\<close> and with \<open>fwmark\<close>.
\<close>

definition reaches_switch ::
  "decls \<Rightarrow> FwmarkServer \<Rightarrow> received \<Rightarrow> world \<Rightarrow> int \<Rightarrow> int \<Rightarrow> Fwmark \<Rightarrow> bool" where
  "reaches_switch D srv rcv w fd family fwmark \<longleftrightarrow>
     well_framed D srv rcv \<and> cmdId (command rcv) \<noteq> QUERY_USER_ACCESS \<and>
     received_fds rcv = [fd] \<and> 0 \<le> fd \<and>
     so_domain (socks w fd) = Inr family \<and> isSupportedFamily D family \<and>
     so_mark (socks w fd) = Inr fwmark"

text \<open>The world after the two reads.\<close>

definition after_reads :: "int \<Rightarrow> world \<Rightarrow> world" where
  "after_reads fd w = w\<lparr>log := log w @ [Getsockopt fd SO_DOMAIN, Getsockopt fd SO_MARK]\<rparr>"

text \<open>
  The status and the world of a result, and the actions a run has added to the log of the
  world it started in.
\<close>

definition status :: "int \<times> int \<times> world \<Rightarrow> int" where
  "status res = fst res"

definition world_after :: "int \<times> int \<times> world \<Rightarrow> world" where
  "world_after res = snd (snd res)"

definition actions :: "world \<Rightarrow> int \<times> int \<times> world \<Rightarrow> action list" where
  "actions w res = drop (length (log w)) (log (world_after res))"

text \<open>The status with which storing a marker on \<open>fd\<close> ends.\<close>

definition store_status :: "world \<Rightarrow> int \<Rightarrow> int" where
  "store_status w fd = (case set_mark_errno (socks w fd) of None \<Rightarrow> 0 | Some e \<Rightarrow> - e)"

text \<open>
  The commands whose case in the \<^verbatim>\<open>switch\<close> ends in \<^verbatim>\<open>break\<close>, so that the marker
  is stored afterwards.
\<close>

definition writes_back :: "CmdId \<Rightarrow> bool" where
  "writes_back cmd \<longleftrightarrow>
     cmd = ON_ACCEPT \<or> cmd = ON_CONNECT \<or> cmd = ON_CONNECT_COMPLETE \<or>
     cmd = SELECT_NETWORK \<or> cmd = PROTECT_FROM_VPN \<or> cmd = SELECT_FOR_USER"

text \<open>
  The three early returns inside those cases: the access check of \<^verbatim>\<open>SELECT_NETWORK\<close>
  fails, the caller of \<^verbatim>\<open>PROTECT_FROM_VPN\<close> cannot protect, the caller of
  \<^verbatim>\<open>SELECT_FOR_USER\<close> lacks the system permission.
\<close>

definition refused :: "decls \<Rightarrow> FwmarkServer \<Rightarrow> SocketClient \<Rightarrow> FwmarkCommand \<Rightarrow> bool" where
  "refused D srv client cmd \<longleftrightarrow>
     (cmdId cmd = SELECT_NETWORK \<and> FwmarkCommand.netId cmd \<noteq> NETID_UNSET \<and>
      checkUserNetworkAccess (mNetworkController srv) (getUid client)
        (FwmarkCommand.netId cmd) \<noteq> 0) \<or>
     (cmdId cmd = PROTECT_FROM_VPN \<and> \<not> canProtect (mNetworkController srv) (getUid client)) \<or>
     (cmdId cmd = SELECT_FOR_USER \<and>
      (getPermissionForUser (mNetworkController srv) (getUid client) AND PERMISSION_SYSTEM D)
        \<noteq> PERMISSION_SYSTEM D)"

subsection \<open>Concrete requests\<close>

text \<open>
  A network controller with the default network 100 and a VPN 101; user 1000 holds the
  system permission and may protect sockets, user 10001 holds the network permission and
  is routed through the VPN, every other user has no permission; networks 100 and 101
  are open to all users.
\<close>

definition ex_controller :: NetworkController where
  "ex_controller =
     \<lparr>getPermissionForUser = (\<lambda>u. if u = 1000 then 3 else if u = 10001 then 1 else 0),
      checkUserNetworkAccess = (\<lambda>u n. if n = 100 \<or> n = 101 then 0 else - 64),
      canProtect = (\<lambda>u. u = 1000),
      getNetworkForInterface = (\<lambda>i. 100),
      getNetworkForConnect = (\<lambda>u. if u = 10001 then 101 else 100),
      getDefaultNetwork = 100,
      isVirtualNetwork = (\<lambda>n. n = 101),
      getNetworkForUser = (\<lambda>u. if u = 10001 then 101 else 100)\<rparr>"

definition ex_server :: FwmarkServer where
  "ex_server =
     \<lparr>mNetworkController = ex_controller, mEventReporter = False,
      mRedirectSocketCalls = False\<rparr>"

definition ex_decls :: decls where
  "ex_decls =
     \<lparr>sizeof_command = 16, sizeof_connectInfo = 36, PERMISSION_SYSTEM = 3,
      isSupportedFamily = (\<lambda>f. f = 2 \<or> f = 10),
      libnetd_updatable_tagSocket = (\<lambda>fd info u c. 0),
      libnetd_updatable_untagSocket = (\<lambda>fd. 0),
      getnameinfo = (\<lambda>a. None)\<rparr>"

text \<open>
  A world with an empty log in which every descriptor is a TCP socket of the given
  family that carries the given marker and accepts a new one.
\<close>

definition ex_world :: "int \<Rightarrow> Fwmark \<Rightarrow> world" where
  "ex_world family fwmark =
     \<lparr>socks = (\<lambda>fd. \<lparr>so_domain = Inr family, so_mark = Inr fwmark, so_protocol = Inr 6,
                      set_mark_errno = None\<rparr>),
      log = []\<rparr>"

text \<open>
  A message of the given length with the given command id, user and network, a zeroed
  connect info and the descriptors given.
\<close>

definition ex_request :: "int \<Rightarrow> CmdId \<Rightarrow> uid_t \<Rightarrow> 32 word \<Rightarrow> int list \<Rightarrow> received" where
  "ex_request len cmd u n fds =
     \<lparr>messageLength = len, recv_errno = 0,
      command = \<lparr>cmdId = cmd, uid = u, FwmarkCommand.netId = n, trafficCtrlInfo = 0\<rparr>,
      connectInfo =
        \<lparr>addr = \<lparr>sin6_family = 0, sin6_port = 0, sin6_flowinfo = 0,
                 sin6_addr = replicate 16 0, sin6_scope_id = 0\<rparr>,
         error = 0, latencyMs = 0\<rparr>,
      received_fds = fds\<rparr>"

text \<open>The marker of a socket that has just been created: all zero.\<close>

definition ex_fresh :: Fwmark where
  "ex_fresh =
     \<lparr>Fwmark.netId = 0, explicitlySelected = False, protectedFromVpn = False, permission = 0\<rparr>"

text \<open>
  A world in which no marker can be read: every descriptor is an IPv4 socket whose
  \<^verbatim>\<open>SO_MARK\<close> read fails with error number 92.
\<close>

definition ex_world_unreadable :: world where
  "ex_world_unreadable =
     \<lparr>socks = (\<lambda>fd. \<lparr>so_domain = Inr 2, so_mark = Inl 92, so_protocol = Inr 6,
                      set_mark_errno = None\<rparr>),
      log = []\<rparr>"

section \<open>Properties\<close>

subsection \<open>Auxiliary facts\<close>

lemma writes_append: "writes (xs @ ys) = writes xs @ writes ys"
  by (induction xs rule: writes.induct) simp_all

lemma processClient_reaches_switch:
  assumes "reaches_switch D srv rcv w fd family fwmark"
  shows "processClient D srv client rcv w =
     (case processClient_store fd
             (processClient_switch D srv client (command rcv) (connectInfo rcv) fd family fwmark
                (getPermissionForUser (mNetworkController srv) (getUid client))
                (after_reads fd w)) of
        (r, w3) \<Rightarrow> (r, fd, w3))"
  using assms
  by (simp add: reaches_switch_def well_framed_def processClient_def getsockopt_domain_def
      getsockopt_mark_def after_reads_def)

lemma store_Break:
  "processClient_store fd (Break m p, w) =
     (store_status w fd,
      w\<lparr>socks := (case set_mark_errno (socks w fd) of
                    None \<Rightarrow>
                      (socks w)(fd := (socks w fd)\<lparr>so_mark := Inr (m\<lparr>Fwmark.permission := p\<rparr>)\<rparr>)
                  | Some e \<Rightarrow> socks w),
         log := log w @ [Setsockopt fd (m\<lparr>Fwmark.permission := p\<rparr>)]\<rparr>)"
  by (simp add: processClient_store_def setsockopt_mark_def store_status_def split: option.split)

lemma store_Return: "processClient_store fd (Return r, w) = (r, w)"
  by (simp add: processClient_store_def)

lemmas run_simps = processClient_switch_def Let_def store_Break store_Return
  actions_def world_after_def status_def after_reads_def

lemmas ex_simps = ex_controller_def ex_server_def ex_decls_def ex_world_def ex_request_def
  reaches_switch_def well_framed_def expectedLen_def hasDestinationAddress_def

lemmas eval_simps = processClient_def processClient_switch_def processClient_store_def
  getsockopt_domain_def getsockopt_mark_def setsockopt_mark_def actions_def world_after_def
  status_def

subsection \<open>The command protocol\<close>

text \<open>
  Claim C8. Framing. A read of zero bytes ends the request with \<open>- ESHUTDOWN\<close> (the
  peer has closed the connection). For a message of positive length the expected length
  is the size of the command, plus the size of the connect info exactly when the command
  id carries a destination: \<^verbatim>\<open>ON_SENDTO\<close>, \<^verbatim>\<open>ON_CONNECT\<close>, \<^verbatim>\<open>ON_SENDMSG\<close>,
  \<^verbatim>\<open>ON_SENDMMSG\<close>, \<^verbatim>\<open>ON_CONNECT_COMPLETE\<close> when socket calls are redirected, only
  \<^verbatim>\<open>ON_CONNECT\<close> and \<^verbatim>\<open>ON_CONNECT_COMPLETE\<close> when they are not. Every other length,
  shorter or longer, ends the request with \<open>- EBADMSG\<close>. In both cases nothing has been
  done to any socket and no descriptor has been taken over.
\<close>

theorem framing:
  "(messageLength rcv = 0 \<longrightarrow> processClient D srv client rcv w = (- ESHUTDOWN, - 1, w)) \<and>
   (0 < messageLength rcv \<and> messageLength rcv \<noteq> int (expectedLen D srv (command rcv)) \<longrightarrow>
      processClient D srv client rcv w = (- EBADMSG, - 1, w)) \<and>
   expectedLen D srv (command rcv) =
     sizeof_command D +
     (if (mRedirectSocketCalls srv \<and>
          cmdId (command rcv) \<in>
            {ON_SENDTO, ON_CONNECT, ON_SENDMSG, ON_SENDMMSG, ON_CONNECT_COMPLETE}) \<or>
         (\<not> mRedirectSocketCalls srv \<and>
          cmdId (command rcv) \<in> {ON_CONNECT, ON_CONNECT_COMPLETE})
      then sizeof_connectInfo D else 0)"
  by (simp add: processClient_def expectedLen_def hasDestinationAddress_def)

text \<open>
  An empty read; an \<^verbatim>\<open>ON_CONNECT\<close> without its connect info (16 bytes where 52 are
  expected); a \<^verbatim>\<open>SELECT_NETWORK\<close> with a connect info it must not have (52 bytes where
  16 are expected).
\<close>

theorem framing_witness:
  "processClient ex_decls ex_server \<lparr>getUid = 10001\<rparr> (ex_request 0 ON_CONNECT 0 0 [5])
     (ex_world 2 ex_fresh) = (- ESHUTDOWN, - 1, ex_world 2 ex_fresh) \<and>
   processClient ex_decls ex_server \<lparr>getUid = 10001\<rparr> (ex_request 16 ON_CONNECT 0 0 [5])
     (ex_world 2 ex_fresh) = (- EBADMSG, - 1, ex_world 2 ex_fresh) \<and>
   expectedLen ex_decls ex_server (command (ex_request 16 ON_CONNECT 0 0 [5])) = 52 \<and>
   processClient ex_decls ex_server \<lparr>getUid = 10001\<rparr> (ex_request 52 SELECT_NETWORK 0 100 [5])
     (ex_world 2 ex_fresh) = (- EBADMSG, - 1, ex_world 2 ex_fresh) \<and>
   expectedLen ex_decls ex_server (command (ex_request 52 SELECT_NETWORK 0 100 [5])) = 16"
  using framing [of "ex_request 0 ON_CONNECT 0 0 [5]" ex_decls ex_server "\<lparr>getUid = 10001\<rparr>"
                    "ex_world 2 ex_fresh"]
    framing [of "ex_request 16 ON_CONNECT 0 0 [5]" ex_decls ex_server "\<lparr>getUid = 10001\<rparr>"
                "ex_world 2 ex_fresh"]
    framing [of "ex_request 52 SELECT_NETWORK 0 100 [5]" ex_decls ex_server
                "\<lparr>getUid = 10001\<rparr>" "ex_world 2 ex_fresh"]
  by (simp add: ex_request_def ex_decls_def ex_server_def)

text \<open>
  Claim C9. A well-framed \<^verbatim>\<open>QUERY_USER_ACCESS\<close> is answered at once: with \<open>- EPERM\<close>
  when the caller's permission does not include the system permission, and otherwise with
  exactly what \<open>checkUserNetworkAccess\<close> says for the user and network of the command.
  The world is returned as it was: no socket option is read or written, nothing is
  logged. No descriptor is taken over, and the descriptors received play no role (the
  statement holds for every list of them).
\<close>

theorem query_user_access:
  assumes "well_framed D srv rcv" and "cmdId (command rcv) = QUERY_USER_ACCESS"
  shows "processClient D srv client rcv w =
     (if (getPermissionForUser (mNetworkController srv) (getUid client) AND PERMISSION_SYSTEM D)
           \<noteq> PERMISSION_SYSTEM D
      then - EPERM
      else checkUserNetworkAccess (mNetworkController srv) (uid (command rcv))
             (FwmarkCommand.netId (command rcv)),
      - 1, w)"
  using assms by (simp add: well_framed_def processClient_def)

text \<open>
  User 10001 lacks the system permission and is refused; user 1000 holds it and gets the
  answer for user 1000 and network 100, which is 0. Neither request brings a descriptor.
\<close>

theorem query_user_access_witness:
  "well_framed ex_decls ex_server (ex_request 16 QUERY_USER_ACCESS 1000 100 []) \<and>
   processClient ex_decls ex_server \<lparr>getUid = 10001\<rparr>
     (ex_request 16 QUERY_USER_ACCESS 1000 100 []) (ex_world 2 ex_fresh) =
     (- EPERM, - 1, ex_world 2 ex_fresh) \<and>
   processClient ex_decls ex_server \<lparr>getUid = 1000\<rparr>
     (ex_request 16 QUERY_USER_ACCESS 1000 100 []) (ex_world 2 ex_fresh) = (0, - 1, ex_world 2 ex_fresh)"
proof -
  have f: "well_framed ex_decls ex_server (ex_request 16 QUERY_USER_ACCESS 1000 100 [])"
    by (simp add: ex_simps)
  have c: "cmdId (command (ex_request 16 QUERY_USER_ACCESS 1000 100 [])) = QUERY_USER_ACCESS"
    by (simp add: ex_request_def)
  show ?thesis
    using f query_user_access [OF f c, of "\<lparr>getUid = 10001\<rparr>" "ex_world 2 ex_fresh"]
      query_user_access [OF f c, of "\<lparr>getUid = 1000\<rparr>" "ex_world 2 ex_fresh"]
    by (simp add: ex_controller_def ex_server_def ex_decls_def ex_request_def)
qed

text \<open>
  Claim C10. Every other well-framed command, whatever its id, passes three gates in
  this order before the \<^verbatim>\<open>switch\<close> is entered. Unless exactly one descriptor was
  received and it is not negative, the request ends with \<open>- EBADF\<close> and nothing has been
  done. Then the family of the socket is read: on a socket of an unsupported family the
  request ends with \<open>- EAFNOSUPPORT\<close>, which is not success, after that one read, and the
  traffic tagger has not been called (when the read itself fails, its error number is
  returned). Then the marker is read: when that read fails, the request ends with its error
  number after the two reads. Only a request that passed all three reaches the
  \<^verbatim>\<open>switch\<close>. None of the three outcomes depends on the command id.
\<close>

theorem gates_before_switch:
  assumes "well_framed D srv rcv" and "cmdId (command rcv) \<noteq> QUERY_USER_ACCESS"
  shows "((\<forall>fd. received_fds rcv = [fd] \<longrightarrow> fd < 0) \<longrightarrow>
            processClient D srv client rcv w = (- EBADF, - 1, w)) \<and>
     (\<forall>fd. received_fds rcv = [fd] \<and> 0 \<le> fd \<longrightarrow>
        (case so_domain (socks w fd) of
           Inl e \<Rightarrow> processClient D srv client rcv w =
                     (- e, fd, w\<lparr>log := log w @ [Getsockopt fd SO_DOMAIN]\<rparr>)
         | Inr family \<Rightarrow>
             if \<not> isSupportedFamily D family
             then processClient D srv client rcv w =
                    (- EAFNOSUPPORT, fd, w\<lparr>log := log w @ [Getsockopt fd SO_DOMAIN]\<rparr>) \<and>
                  status (processClient D srv client rcv w) \<noteq> 0 \<and>
                  tagger_calls (actions w (processClient D srv client rcv w)) = []
             else (case so_mark (socks w fd) of
                     Inl e \<Rightarrow> processClient D srv client rcv w =
                               (- e, fd, w\<lparr>log := log w @ [Getsockopt fd SO_DOMAIN,
                                                            Getsockopt fd SO_MARK]\<rparr>)
                   | Inr fwmark \<Rightarrow> reaches_switch D srv rcv w fd family fwmark)))"
  using assms
  by (auto simp add: well_framed_def processClient_def getsockopt_domain_def getsockopt_mark_def
      reaches_switch_def status_def actions_def world_after_def EAFNOSUPPORT_def
      split: list.splits sum.splits)

text \<open>
  A \<^verbatim>\<open>TAG_SOCKET\<close> without a descriptor; an \<^verbatim>\<open>ON_SENDTO\<close> and an \<^verbatim>\<open>UNTAG_SOCKET\<close>
  on a socket of family 1 (a local socket), which is not supported; a command with the
  unknown id 99 on a socket whose marker cannot be read.
\<close>

theorem gates_before_switch_witness:
  "well_framed ex_decls ex_server (ex_request 16 TAG_SOCKET 0 0 []) \<and>
   status (processClient ex_decls ex_server \<lparr>getUid = 10001\<rparr> (ex_request 16 TAG_SOCKET 0 0 [])
     (ex_world 2 ex_fresh)) = - EBADF \<and>
   actions (ex_world 2 ex_fresh) (processClient ex_decls ex_server \<lparr>getUid = 10001\<rparr>
     (ex_request 16 TAG_SOCKET 0 0 []) (ex_world 2 ex_fresh)) = [] \<and>
   status (processClient ex_decls ex_server \<lparr>getUid = 10001\<rparr> (ex_request 16 ON_SENDTO 0 0 [5])
     (ex_world 1 ex_fresh)) = - EAFNOSUPPORT \<and>
   actions (ex_world 1 ex_fresh) (processClient ex_decls ex_server \<lparr>getUid = 10001\<rparr>
     (ex_request 16 UNTAG_SOCKET 0 0 [5]) (ex_world 1 ex_fresh)) = [Getsockopt 5 SO_DOMAIN] \<and>
   status (processClient ex_decls ex_server \<lparr>getUid = 10001\<rparr>
     (ex_request 16 (UNKNOWN_CMD 99) 0 0 [5]) ex_world_unreadable) = - 92 \<and>
   actions ex_world_unreadable (processClient ex_decls ex_server \<lparr>getUid = 10001\<rparr>
     (ex_request 16 (UNKNOWN_CMD 99) 0 0 [5]) ex_world_unreadable) =
     [Getsockopt 5 SO_DOMAIN, Getsockopt 5 SO_MARK]"
proof -
  have f: "well_framed ex_decls ex_server (ex_request 16 c 0 0 fds)"
    if "c \<in> {TAG_SOCKET, ON_SENDTO, UNTAG_SOCKET, UNKNOWN_CMD 99}" for c fds
    using that by (auto simp add: ex_simps)
  have q: "cmdId (command (ex_request 16 c 0 0 fds)) \<noteq> QUERY_USER_ACCESS"
    if "c \<in> {TAG_SOCKET, ON_SENDTO, UNTAG_SOCKET, UNKNOWN_CMD 99}" for c fds
    using that by (auto simp add: ex_request_def)
  show ?thesis
    using f [of TAG_SOCKET "[]"]
      gates_before_switch [OF f [of TAG_SOCKET "[]"] q [of TAG_SOCKET "[]"],
        of "\<lparr>getUid = 10001\<rparr>" "ex_world 2 ex_fresh"]
      gates_before_switch [OF f [of ON_SENDTO "[5]"] q [of ON_SENDTO "[5]"],
        of "\<lparr>getUid = 10001\<rparr>" "ex_world 1 ex_fresh"]
      gates_before_switch [OF f [of UNTAG_SOCKET "[5]"] q [of UNTAG_SOCKET "[5]"],
        of "\<lparr>getUid = 10001\<rparr>" "ex_world 1 ex_fresh"]
      gates_before_switch [OF f [of "UNKNOWN_CMD 99" "[5]"] q [of "UNKNOWN_CMD 99" "[5]"],
        of "\<lparr>getUid = 10001\<rparr>" ex_world_unreadable]
    by (simp add: ex_request_def ex_decls_def ex_world_def ex_world_unreadable_def status_def
        actions_def world_after_def)
qed


subsection \<open>Connecting\<close>

text \<open>
  Claim C2. An \<^verbatim>\<open>ON_CONNECT\<close> that reaches the \<^verbatim>\<open>switch\<close> with a marker whose explicit
  flag is not set stores, after the two reads, the marker with this network id: when the
  socket's family is IPv6, the scope id of the destination is not zero and the destination
  is link-local, the network of that interface; otherwise, when the marker is not
  protected from VPN, the network for connect of the calling user; otherwise the default
  network when the marker's network is not virtual, and the marker's own network when it
  is. (The marker keeps the low 16 bits of what the controller returns.)
\<close>

theorem on_connect_netId:
  assumes "reaches_switch D srv rcv w fd family fwmark"
    and "cmdId (command rcv) = ON_CONNECT"
    and "\<not> explicitlySelected fwmark"
  shows "actions w (processClient D srv client rcv w) =
     [Getsockopt fd SO_DOMAIN, Getsockopt fd SO_MARK,
      Setsockopt fd
        (fwmark\<lparr>Fwmark.netId :=
            (if family = AF_INET6 \<and> sin6_scope_id (addr (connectInfo rcv)) \<noteq> 0 \<and>
                IN6_IS_ADDR_LINKLOCAL (sin6_addr (addr (connectInfo rcv)))
             then ucast (getNetworkForInterface (mNetworkController srv)
                           (sin6_scope_id (addr (connectInfo rcv))))
             else if \<not> protectedFromVpn fwmark
             then ucast (getNetworkForConnect (mNetworkController srv) (getUid client))
             else if \<not> isVirtualNetwork (mNetworkController srv) (ucast (Fwmark.netId fwmark))
             then ucast (getDefaultNetwork (mNetworkController srv))
             else Fwmark.netId fwmark),
          Fwmark.permission := getPermissionForUser (mNetworkController srv) (getUid client)\<rparr>)]"
  using assms(2,3)
  by (simp add: processClient_reaches_switch [OF assms(1)] run_simps)

text \<open>
  User 10001 connects a fresh IPv4 socket: the marker gets network 101, the VPN that
  applies to this user. With a marker that is protected and already on the VPN 101,
  the network stays 101.
\<close>

theorem on_connect_netId_witness:
  "reaches_switch ex_decls ex_server (ex_request 52 ON_CONNECT 0 0 [5])
     (ex_world 2 ex_fresh) 5 2 ex_fresh \<and>
   \<not> explicitlySelected ex_fresh \<and>
   actions (ex_world 2 ex_fresh)
     (processClient ex_decls ex_server \<lparr>getUid = 10001\<rparr> (ex_request 52 ON_CONNECT 0 0 [5])
        (ex_world 2 ex_fresh)) =
     [Getsockopt 5 SO_DOMAIN, Getsockopt 5 SO_MARK,
      Setsockopt 5 \<lparr>Fwmark.netId = 101, explicitlySelected = False, protectedFromVpn = False,
                    permission = 1\<rparr>] \<and>
   actions (ex_world 2 (ex_fresh\<lparr>Fwmark.netId := 101, protectedFromVpn := True\<rparr>))
     (processClient ex_decls ex_server \<lparr>getUid = 10001\<rparr> (ex_request 52 ON_CONNECT 0 0 [5])
        (ex_world 2 (ex_fresh\<lparr>Fwmark.netId := 101, protectedFromVpn := True\<rparr>))) =
     [Getsockopt 5 SO_DOMAIN, Getsockopt 5 SO_MARK,
      Setsockopt 5 \<lparr>Fwmark.netId = 101, explicitlySelected = False, protectedFromVpn = True,
                    permission = 1\<rparr>]"
proof -
  have h: "reaches_switch ex_decls ex_server (ex_request 52 ON_CONNECT 0 0 [5])
             (ex_world 2 m) 5 2 m" for m
    by (simp add: ex_simps)
  have c: "cmdId (command (ex_request 52 ON_CONNECT 0 0 [5])) = ON_CONNECT"
    by (simp add: ex_request_def)
  have e: "\<not> explicitlySelected ex_fresh"
    and e': "\<not> explicitlySelected (ex_fresh\<lparr>Fwmark.netId := 101, protectedFromVpn := True\<rparr>)"
    by (simp_all add: ex_fresh_def)
  show ?thesis
    using h [of ex_fresh] e on_connect_netId [OF h c e, of "\<lparr>getUid = 10001\<rparr>"]
      on_connect_netId [OF h c e', of "\<lparr>getUid = 10001\<rparr>"]
    by (simp add: ex_controller_def ex_server_def ex_request_def ex_fresh_def AF_INET6_def)
qed

text \<open>
  Claim C3, as stated: an \<^verbatim>\<open>ON_CONNECT\<close> on an explicitly selected marker writes back
  the four fields it read. It does not: the permission field is overwritten with the
  caller's permission. Here a socket explicitly bound to network 100 with no permission
  bits is connected by user 10001, who holds the network permission: the marker stored has
  permission 1 where 0 was read.
\<close>

theorem on_connect_explicit_counterexample:
  "explicitlySelected
     \<lparr>Fwmark.netId = 100, explicitlySelected = True, protectedFromVpn = False,
      permission = 0\<rparr> \<and>
   actions
     (ex_world 2 \<lparr>Fwmark.netId = 100, explicitlySelected = True, protectedFromVpn = False,
                  permission = 0\<rparr>)
     (processClient ex_decls ex_server \<lparr>getUid = 10001\<rparr> (ex_request 52 ON_CONNECT 0 0 [5])
        (ex_world 2 \<lparr>Fwmark.netId = 100, explicitlySelected = True, protectedFromVpn = False,
                     permission = 0\<rparr>)) =
     [Getsockopt 5 SO_DOMAIN, Getsockopt 5 SO_MARK,
      Setsockopt 5 \<lparr>Fwmark.netId = 100, explicitlySelected = True, protectedFromVpn = False,
                    permission = 1\<rparr>] \<and>
   \<lparr>Fwmark.netId = 100, explicitlySelected = True, protectedFromVpn = False, permission = 1\<rparr>
     \<noteq> \<lparr>Fwmark.netId = 100, explicitlySelected = True, protectedFromVpn = False,
         permission = 0\<rparr>"
  by (simp add: eval_simps ex_simps)

text \<open>
  Claim C3, amended: an \<^verbatim>\<open>ON_CONNECT\<close> that reaches the \<^verbatim>\<open>switch\<close> with an explicitly
  selected marker stores the marker it read with the permission replaced by the caller's
  permission; the network id and the two flags are the ones read.
\<close>

theorem on_connect_explicit:
  assumes "reaches_switch D srv rcv w fd family fwmark"
    and "cmdId (command rcv) = ON_CONNECT"
    and "explicitlySelected fwmark"
  shows "actions w (processClient D srv client rcv w) =
     [Getsockopt fd SO_DOMAIN, Getsockopt fd SO_MARK,
      Setsockopt fd
        (fwmark\<lparr>Fwmark.permission :=
                   getPermissionForUser (mNetworkController srv) (getUid client)\<rparr>)]"
  using assms(2,3)
  by (simp add: processClient_reaches_switch [OF assms(1)] run_simps)

theorem on_connect_explicit_witness:
  "reaches_switch ex_decls ex_server (ex_request 52 ON_CONNECT 0 0 [5])
     (ex_world 10 (ex_fresh\<lparr>Fwmark.netId := 100, explicitlySelected := True\<rparr>)) 5 10
     (ex_fresh\<lparr>Fwmark.netId := 100, explicitlySelected := True\<rparr>) \<and>
   actions (ex_world 10 (ex_fresh\<lparr>Fwmark.netId := 100, explicitlySelected := True\<rparr>))
     (processClient ex_decls ex_server \<lparr>getUid = 1000\<rparr> (ex_request 52 ON_CONNECT 0 0 [5])
        (ex_world 10 (ex_fresh\<lparr>Fwmark.netId := 100, explicitlySelected := True\<rparr>))) =
     [Getsockopt 5 SO_DOMAIN, Getsockopt 5 SO_MARK,
      Setsockopt 5 \<lparr>Fwmark.netId = 100, explicitlySelected = True, protectedFromVpn = False,
                    permission = 3\<rparr>]"
proof -
  let ?m = "ex_fresh\<lparr>Fwmark.netId := 100, explicitlySelected := True\<rparr>"
  have h: "reaches_switch ex_decls ex_server (ex_request 52 ON_CONNECT 0 0 [5])
             (ex_world 10 ?m) 5 10 ?m"
    by (simp add: ex_simps)
  have c: "cmdId (command (ex_request 52 ON_CONNECT 0 0 [5])) = ON_CONNECT"
    by (simp add: ex_request_def)
  have e: "explicitlySelected ?m" by simp
  show ?thesis
    using h on_connect_explicit [OF h c e, of "\<lparr>getUid = 1000\<rparr>"]
    by (simp add: ex_controller_def ex_server_def ex_fresh_def)
qed

subsection \<open>Selecting a network\<close>

text \<open>
  Claim C5. A \<^verbatim>\<open>SELECT_NETWORK\<close> with the unset network that reaches the \<^verbatim>\<open>switch\<close>
  stores, whatever marker was read, the marker with the unset network, both flags false
  and permission NONE. Its status is that of the store: 0 whenever the kernel accepts the
  write. The access check plays no role: the run is the same under every other
  \<open>checkUserNetworkAccess\<close>.
\<close>

theorem select_network_unset:
  assumes "reaches_switch D srv rcv w fd family fwmark"
    and "cmdId (command rcv) = SELECT_NETWORK"
    and "FwmarkCommand.netId (command rcv) = NETID_UNSET"
  shows "status (processClient D srv client rcv w) =
       (case set_mark_errno (socks w fd) of None \<Rightarrow> 0 | Some e \<Rightarrow> - e) \<and>
     actions w (processClient D srv client rcv w) =
       [Getsockopt fd SO_DOMAIN, Getsockopt fd SO_MARK,
        Setsockopt fd \<lparr>Fwmark.netId = ucast NETID_UNSET, explicitlySelected = False,
                       protectedFromVpn = False, permission = PERMISSION_NONE\<rparr>] \<and>
     processClient D
       (srv\<lparr>mNetworkController := (mNetworkController srv)\<lparr>checkUserNetworkAccess := chk\<rparr>\<rparr>)
       client rcv w = processClient D srv client rcv w"
proof -
  let ?srv' =
    "srv\<lparr>mNetworkController := (mNetworkController srv)\<lparr>checkUserNetworkAccess := chk\<rparr>\<rparr>"
  have r': "reaches_switch D ?srv' rcv w fd family fwmark"
    using assms(1) by (simp add: reaches_switch_def well_framed_def expectedLen_def)
  show ?thesis
    using assms(2,3)
    by (simp add: processClient_reaches_switch [OF assms(1)] processClient_reaches_switch [OF r']
        run_simps store_status_def)
qed

text \<open>
  The scenario of the specification: the marker read has network 7, both flags set and
  the system permission; the caller is user 10001; the access check would refuse.
\<close>

theorem select_network_unset_witness:
  "reaches_switch ex_decls ex_server (ex_request 16 SELECT_NETWORK 0 NETID_UNSET [5])
     (ex_world 2 \<lparr>Fwmark.netId = 7, explicitlySelected = True, protectedFromVpn = True,
                  permission = 3\<rparr>) 5 2
     \<lparr>Fwmark.netId = 7, explicitlySelected = True, protectedFromVpn = True, permission = 3\<rparr> \<and>
   status
     (processClient ex_decls ex_server \<lparr>getUid = 10001\<rparr>
        (ex_request 16 SELECT_NETWORK 0 NETID_UNSET [5])
        (ex_world 2 \<lparr>Fwmark.netId = 7, explicitlySelected = True, protectedFromVpn = True,
                     permission = 3\<rparr>)) = 0 \<and>
   actions
     (ex_world 2 \<lparr>Fwmark.netId = 7, explicitlySelected = True, protectedFromVpn = True,
                  permission = 3\<rparr>)
     (processClient ex_decls ex_server \<lparr>getUid = 10001\<rparr>
        (ex_request 16 SELECT_NETWORK 0 NETID_UNSET [5])
        (ex_world 2 \<lparr>Fwmark.netId = 7, explicitlySelected = True, protectedFromVpn = True,
                     permission = 3\<rparr>)) =
     [Getsockopt 5 SO_DOMAIN, Getsockopt 5 SO_MARK,
      Setsockopt 5 \<lparr>Fwmark.netId = 0, explicitlySelected = False, protectedFromVpn = False,
                    permission = 0\<rparr>]"
proof -
  let ?m = "\<lparr>Fwmark.netId = 7, explicitlySelected = True, protectedFromVpn = True,
             permission = 3\<rparr>"
  have h: "reaches_switch ex_decls ex_server (ex_request 16 SELECT_NETWORK 0 NETID_UNSET [5])
             (ex_world 2 ?m) 5 2 ?m"
    by (simp add: ex_simps)
  have c: "cmdId (command (ex_request 16 SELECT_NETWORK 0 NETID_UNSET [5])) = SELECT_NETWORK"
    and n: "FwmarkCommand.netId (command (ex_request 16 SELECT_NETWORK 0 NETID_UNSET [5])) =
              NETID_UNSET"
    by (simp_all add: ex_request_def)
  show ?thesis
    using h select_network_unset [OF h c n, of "\<lparr>getUid = 10001\<rparr>" "\<lambda>u n. - 13"]
    by (simp add: ex_world_def NETID_UNSET_def PERMISSION_NONE_def)
qed

text \<open>
  Claim C6. A \<^verbatim>\<open>SELECT_NETWORK\<close> with another network that reaches the \<^verbatim>\<open>switch\<close>
  and whose access check does not return 0 ends with exactly the value the check returned;
  beyond the two reads nothing is done: no marker is stored and the sockets are as before.
\<close>

theorem select_network_denied:
  assumes "reaches_switch D srv rcv w fd family fwmark"
    and "cmdId (command rcv) = SELECT_NETWORK"
    and "FwmarkCommand.netId (command rcv) \<noteq> NETID_UNSET"
    and "checkUserNetworkAccess (mNetworkController srv) (getUid client)
           (FwmarkCommand.netId (command rcv)) \<noteq> 0"
  shows "status (processClient D srv client rcv w) =
       checkUserNetworkAccess (mNetworkController srv) (getUid client)
         (FwmarkCommand.netId (command rcv)) \<and>
     actions w (processClient D srv client rcv w) =
       [Getsockopt fd SO_DOMAIN, Getsockopt fd SO_MARK] \<and>
     socks (world_after (processClient D srv client rcv w)) = socks w"
  using assms(2,3,4)
  by (simp add: processClient_reaches_switch [OF assms(1)] run_simps)

text \<open>Network 555 does not exist; the check answers \<open>- 64\<close> and so does the request.\<close>

theorem select_network_denied_witness:
  "reaches_switch ex_decls ex_server (ex_request 16 SELECT_NETWORK 0 555 [5])
     (ex_world 2 ex_fresh) 5 2 ex_fresh \<and>
   (555 :: 32 word) \<noteq> NETID_UNSET \<and>
   status (processClient ex_decls ex_server \<lparr>getUid = 10001\<rparr>
     (ex_request 16 SELECT_NETWORK 0 555 [5]) (ex_world 2 ex_fresh)) = - 64 \<and>
   actions (ex_world 2 ex_fresh) (processClient ex_decls ex_server \<lparr>getUid = 10001\<rparr>
     (ex_request 16 SELECT_NETWORK 0 555 [5]) (ex_world 2 ex_fresh)) =
     [Getsockopt 5 SO_DOMAIN, Getsockopt 5 SO_MARK] \<and>
   socks (world_after (processClient ex_decls ex_server \<lparr>getUid = 10001\<rparr>
     (ex_request 16 SELECT_NETWORK 0 555 [5]) (ex_world 2 ex_fresh))) =
     socks (ex_world 2 ex_fresh)"
proof -
  have h: "reaches_switch ex_decls ex_server (ex_request 16 SELECT_NETWORK 0 555 [5])
             (ex_world 2 ex_fresh) 5 2 ex_fresh"
    by (simp add: ex_simps)
  have c: "cmdId (command (ex_request 16 SELECT_NETWORK 0 555 [5])) = SELECT_NETWORK"
    and n: "FwmarkCommand.netId (command (ex_request 16 SELECT_NETWORK 0 555 [5])) \<noteq>
              NETID_UNSET"
    and a: "checkUserNetworkAccess (mNetworkController ex_server) (getUid \<lparr>getUid = 10001\<rparr>)
              (FwmarkCommand.netId (command (ex_request 16 SELECT_NETWORK 0 555 [5]))) \<noteq> 0"
    by (simp_all add: ex_request_def ex_server_def ex_controller_def NETID_UNSET_def)
  show ?thesis
    using h select_network_denied [OF h c n a]
    by (simp add: ex_request_def ex_server_def ex_controller_def NETID_UNSET_def)
qed

text \<open>
  Claim C7. A \<^verbatim>\<open>PROTECT_FROM_VPN\<close> that reaches the \<^verbatim>\<open>switch\<close>: when the caller cannot
  protect, the request ends with \<open>- EPERM\<close> and beyond the two reads nothing is done, no
  marker is stored. Otherwise the marker stored has the protect flag set; its network is
  the default network when the marker read was not explicitly selected and its network
  was virtual, and the network read in every other case, in particular when the marker
  read was explicitly selected; its permission is the caller's joined with the one read.
\<close>

theorem protect_from_vpn:
  assumes "reaches_switch D srv rcv w fd family fwmark"
    and "cmdId (command rcv) = PROTECT_FROM_VPN"
  shows "if \<not> canProtect (mNetworkController srv) (getUid client)
     then status (processClient D srv client rcv w) = - EPERM \<and>
          actions w (processClient D srv client rcv w) =
            [Getsockopt fd SO_DOMAIN, Getsockopt fd SO_MARK] \<and>
          socks (world_after (processClient D srv client rcv w)) = socks w
     else actions w (processClient D srv client rcv w) =
            [Getsockopt fd SO_DOMAIN, Getsockopt fd SO_MARK,
             Setsockopt fd
               (fwmark\<lparr>Fwmark.netId :=
                   (if \<not> explicitlySelected fwmark \<and>
                       isVirtualNetwork (mNetworkController srv) (ucast (Fwmark.netId fwmark))
                    then ucast (getDefaultNetwork (mNetworkController srv))
                    else Fwmark.netId fwmark),
                 protectedFromVpn := True,
                 Fwmark.permission :=
                   getPermissionForUser (mNetworkController srv) (getUid client) OR
                   Fwmark.permission fwmark\<rparr>)]"
  using assms(2)
  by (simp add: processClient_reaches_switch [OF assms(1)] run_simps)

text \<open>
  The socket is on the VPN 101 without having selected it. User 10001 cannot protect and
  is refused; user 1000 can, and the marker moves to the default network 100. When
  network 101 was selected explicitly, it stays.
\<close>

theorem protect_from_vpn_witness:
  "reaches_switch ex_decls ex_server (ex_request 16 PROTECT_FROM_VPN 0 0 [5])
     (ex_world 2 (ex_fresh\<lparr>Fwmark.netId := 101\<rparr>)) 5 2 (ex_fresh\<lparr>Fwmark.netId := 101\<rparr>) \<and>
   status (processClient ex_decls ex_server \<lparr>getUid = 10001\<rparr>
     (ex_request 16 PROTECT_FROM_VPN 0 0 [5]) (ex_world 2 (ex_fresh\<lparr>Fwmark.netId := 101\<rparr>))) =
     - EPERM \<and>
   actions (ex_world 2 (ex_fresh\<lparr>Fwmark.netId := 101\<rparr>))
     (processClient ex_decls ex_server \<lparr>getUid = 10001\<rparr>
        (ex_request 16 PROTECT_FROM_VPN 0 0 [5]) (ex_world 2 (ex_fresh\<lparr>Fwmark.netId := 101\<rparr>))) =
     [Getsockopt 5 SO_DOMAIN, Getsockopt 5 SO_MARK] \<and>
   actions (ex_world 2 (ex_fresh\<lparr>Fwmark.netId := 101\<rparr>))
     (processClient ex_decls ex_server \<lparr>getUid = 1000\<rparr>
        (ex_request 16 PROTECT_FROM_VPN 0 0 [5]) (ex_world 2 (ex_fresh\<lparr>Fwmark.netId := 101\<rparr>))) =
     [Getsockopt 5 SO_DOMAIN, Getsockopt 5 SO_MARK,
      Setsockopt 5 \<lparr>Fwmark.netId = 100, explicitlySelected = False, protectedFromVpn = True,
                    permission = 3\<rparr>] \<and>
   actions (ex_world 2 (ex_fresh\<lparr>Fwmark.netId := 101, explicitlySelected := True\<rparr>))
     (processClient ex_decls ex_server \<lparr>getUid = 1000\<rparr>
        (ex_request 16 PROTECT_FROM_VPN 0 0 [5])
        (ex_world 2 (ex_fresh\<lparr>Fwmark.netId := 101, explicitlySelected := True\<rparr>))) =
     [Getsockopt 5 SO_DOMAIN, Getsockopt 5 SO_MARK,
      Setsockopt 5 \<lparr>Fwmark.netId = 101, explicitlySelected = True, protectedFromVpn = True,
                    permission = 3\<rparr>]"
proof -
  have h: "reaches_switch ex_decls ex_server (ex_request 16 PROTECT_FROM_VPN 0 0 [5])
             (ex_world 2 m) 5 2 m" for m
    by (simp add: ex_simps)
  have c: "cmdId (command (ex_request 16 PROTECT_FROM_VPN 0 0 [5])) = PROTECT_FROM_VPN"
    by (simp add: ex_request_def)
  show ?thesis
    using h [of "ex_fresh\<lparr>Fwmark.netId := 101\<rparr>"]
      protect_from_vpn [OF h [of "ex_fresh\<lparr>Fwmark.netId := 101\<rparr>"] c,
        of "\<lparr>getUid = 10001\<rparr>"]
      protect_from_vpn [OF h [of "ex_fresh\<lparr>Fwmark.netId := 101\<rparr>"] c,
        of "\<lparr>getUid = 1000\<rparr>"]
      protect_from_vpn
        [OF h [of "ex_fresh\<lparr>Fwmark.netId := 101, explicitlySelected := True\<rparr>"] c,
        of "\<lparr>getUid = 1000\<rparr>"]
    by (simp add: ex_controller_def ex_server_def ex_fresh_def)
qed

subsection \<open>What is stored\<close>

text \<open>
  Claim C1, as stated: every marker written back with the unset network has both flags
  false and permission NONE. It does not: \<^verbatim>\<open>ON_ACCEPT\<close> on a fresh socket, whose marker
  is all zero, by user 10001, who holds the network permission, stores a marker with the
  unset network and permission 1.
\<close>

theorem unset_marker_counterexample:
  "actions (ex_world 2 ex_fresh)
     (processClient ex_decls ex_server \<lparr>getUid = 10001\<rparr> (ex_request 16 ON_ACCEPT 0 0 [5])
        (ex_world 2 ex_fresh)) =
     [Getsockopt 5 SO_DOMAIN, Getsockopt 5 SO_MARK,
      Setsockopt 5 \<lparr>Fwmark.netId = 0, explicitlySelected = False, protectedFromVpn = False,
                    permission = 1\<rparr>] \<and>
   ucast (0 :: 16 word) = NETID_UNSET \<and> (1 :: Permission) \<noteq> PERMISSION_NONE"
  by (simp add: eval_simps ex_simps ex_fresh_def NETID_UNSET_def PERMISSION_NONE_def)

text \<open>
  Claim C1, amended: a request that reaches the \<^verbatim>\<open>switch\<close> stores a marker exactly when
  its command is one of the six that write back and is not refused, and then it stores
  once, as its last action: the whole marker, that is, all four fields, goes into that
  one \<^verbatim>\<open>setsockopt\<close>. The marker stored has the unset network, both flags false and
  permission NONE when the command is \<^verbatim>\<open>SELECT_NETWORK\<close> with the unset network. For the
  other commands the permission stored contains the caller's permission, whatever the
  network stored is.
\<close>

theorem single_store:
  assumes "reaches_switch D srv rcv w fd family fwmark"
  shows "if writes_back (cmdId (command rcv)) \<and> \<not> refused D srv client (command rcv)
     then \<exists>pre m. actions w (processClient D srv client rcv w) = pre @ [Setsockopt fd m] \<and>
            writes pre = [] \<and>
            (if cmdId (command rcv) = SELECT_NETWORK \<and>
                FwmarkCommand.netId (command rcv) = NETID_UNSET
             then ucast (Fwmark.netId m) = NETID_UNSET \<and> \<not> explicitlySelected m \<and>
                  \<not> protectedFromVpn m \<and> Fwmark.permission m = PERMISSION_NONE
             else Fwmark.permission m AND
                  getPermissionForUser (mNetworkController srv) (getUid client) =
                  getPermissionForUser (mNetworkController srv) (getUid client))
     else writes (actions w (processClient D srv client rcv w)) = []"
proof (cases "cmdId (command rcv)")
  case ON_CONNECT_COMPLETE
  then show ?thesis
    by (simp add: processClient_reaches_switch [OF assms] run_simps writes_back_def refused_def
        getsockopt_protocol_def split: sum.splits option.splits)
qed (simp_all add: processClient_reaches_switch [OF assms] run_simps writes_back_def refused_def
        NETID_UNSET_def)

text \<open>
  The reset of the specification's scenario, and an \<^verbatim>\<open>ON_CONNECT_COMPLETE\<close> on a TCP
  socket, where a read of the protocol precedes the store.
\<close>

theorem single_store_witness:
  "reaches_switch ex_decls ex_server (ex_request 16 SELECT_NETWORK 0 NETID_UNSET [5])
     (ex_world 2 \<lparr>Fwmark.netId = 7, explicitlySelected = True, protectedFromVpn = True,
                  permission = 3\<rparr>) 5 2
     \<lparr>Fwmark.netId = 7, explicitlySelected = True, protectedFromVpn = True, permission = 3\<rparr> \<and>
   (\<exists>pre m.
      actions
        (ex_world 2 \<lparr>Fwmark.netId = 7, explicitlySelected = True, protectedFromVpn = True,
                     permission = 3\<rparr>)
        (processClient ex_decls ex_server \<lparr>getUid = 10001\<rparr>
           (ex_request 16 SELECT_NETWORK 0 NETID_UNSET [5])
           (ex_world 2 \<lparr>Fwmark.netId = 7, explicitlySelected = True, protectedFromVpn = True,
                        permission = 3\<rparr>)) = pre @ [Setsockopt 5 m] \<and>
      writes pre = [] \<and> ucast (Fwmark.netId m) = NETID_UNSET \<and>
      explicitlySelected m = False \<and> protectedFromVpn m = False \<and>
      Fwmark.permission m = PERMISSION_NONE) \<and>
   (\<exists>pre m.
      actions (ex_world 2 ex_fresh)
        (processClient ex_decls ex_server \<lparr>getUid = 10001\<rparr>
           (ex_request 52 ON_CONNECT_COMPLETE 0 0 [5]) (ex_world 2 ex_fresh)) =
        pre @ [Setsockopt 5 m] \<and>
      writes pre = [] \<and> Fwmark.permission m AND 1 = 1)"
proof -
  have h: "reaches_switch ex_decls ex_server (ex_request 16 SELECT_NETWORK 0 NETID_UNSET [5])
             (ex_world 2 m) 5 2 m" for m
    by (simp add: ex_simps)
  have h': "reaches_switch ex_decls ex_server (ex_request 52 ON_CONNECT_COMPLETE 0 0 [5])
              (ex_world 2 m) 5 2 m" for m
    by (simp add: ex_simps)
  show ?thesis
    using h single_store
        [OF h [of "\<lparr>Fwmark.netId = 7, explicitlySelected = True, protectedFromVpn = True,
                   permission = 3\<rparr>"], of "\<lparr>getUid = 10001\<rparr>"]
      single_store [OF h' [of ex_fresh], of "\<lparr>getUid = 10001\<rparr>"]
    by (simp add: writes_back_def refused_def ex_request_def ex_server_def ex_controller_def)
qed

text \<open>
  Claim C4, as stated: except for the reset, the permission written back contains every
  bit of the permission read. It does not: on a socket whose marker carries the system
  permission, a \<^verbatim>\<open>SELECT_NETWORK\<close> of network 100 by user 10002, who has no permission,
  stores permission 0; the bits read are gone.
\<close>

theorem stored_permission_counterexample:
  "actions
     (ex_world 2 \<lparr>Fwmark.netId = 0, explicitlySelected = False, protectedFromVpn = False,
                  permission = 3\<rparr>)
     (processClient ex_decls ex_server \<lparr>getUid = 10002\<rparr> (ex_request 16 SELECT_NETWORK 0 100 [5])
        (ex_world 2 \<lparr>Fwmark.netId = 0, explicitlySelected = False, protectedFromVpn = False,
                     permission = 3\<rparr>)) =
     [Getsockopt 5 SO_DOMAIN, Getsockopt 5 SO_MARK,
      Setsockopt 5 \<lparr>Fwmark.netId = 100, explicitlySelected = True, protectedFromVpn = False,
                    permission = 0\<rparr>] \<and>
   (100 :: 32 word) \<noteq> NETID_UNSET \<and> (3 :: Permission) AND 0 \<noteq> 3"
  by (simp add: eval_simps ex_simps NETID_UNSET_def)

text \<open>
  Claim C4, amended: a request that reaches the \<^verbatim>\<open>switch\<close> with one of the six commands
  that write back, the reset apart, stores nothing when it is refused, and otherwise
  stores one marker whose permission is the caller's permission joined (bitwise or) with
  the permission read for \<^verbatim>\<open>ON_ACCEPT\<close> and \<^verbatim>\<open>PROTECT_FROM_VPN\<close>, and the caller's
  permission alone for \<^verbatim>\<open>ON_CONNECT\<close>, \<^verbatim>\<open>ON_CONNECT_COMPLETE\<close>, \<^verbatim>\<open>SELECT_NETWORK\<close> and
  \<^verbatim>\<open>SELECT_FOR_USER\<close>. So the permission stored contains every bit of the permission
  read for the first two commands, and for the other four exactly when the caller's
  permission contains them.
\<close>

theorem stored_permission:
  assumes "reaches_switch D srv rcv w fd family fwmark"
    and "writes_back (cmdId (command rcv))"
    and "\<not> (cmdId (command rcv) = SELECT_NETWORK \<and>
             FwmarkCommand.netId (command rcv) = NETID_UNSET)"
  shows "map (\<lambda>(fd', m). Fwmark.permission m)
           (writes (actions w (processClient D srv client rcv w))) =
       (if refused D srv client (command rcv) then []
        else [if cmdId (command rcv) = ON_ACCEPT \<or> cmdId (command rcv) = PROTECT_FROM_VPN
              then getPermissionForUser (mNetworkController srv) (getUid client) OR
                   Fwmark.permission fwmark
              else getPermissionForUser (mNetworkController srv) (getUid client)]) \<and>
     list_all
       (\<lambda>(fd', m).
          (Fwmark.permission fwmark AND Fwmark.permission m = Fwmark.permission fwmark) =
          (cmdId (command rcv) = ON_ACCEPT \<or> cmdId (command rcv) = PROTECT_FROM_VPN \<or>
           Fwmark.permission fwmark AND
             getPermissionForUser (mNetworkController srv) (getUid client) =
           Fwmark.permission fwmark))
       (writes (actions w (processClient D srv client rcv w)))"
  using assms(2,3)
proof (cases "cmdId (command rcv)")
  case ON_CONNECT_COMPLETE
  then show ?thesis
    by (simp add: processClient_reaches_switch [OF assms(1)] run_simps refused_def
        getsockopt_protocol_def writes_append split: sum.splits option.splits)
qed (simp_all add: processClient_reaches_switch [OF assms(1)] run_simps writes_back_def
        refused_def)

text \<open>
  \<^verbatim>\<open>ON_ACCEPT\<close> by user 10001 on a socket whose marker carries the system permission
  keeps those bits; \<^verbatim>\<open>ON_CONNECT\<close> by the same user replaces them by the user's own.
\<close>

theorem stored_permission_witness:
  "reaches_switch ex_decls ex_server (ex_request 16 ON_ACCEPT 0 0 [5])
     (ex_world 2 (ex_fresh\<lparr>Fwmark.permission := 3\<rparr>)) 5 2 (ex_fresh\<lparr>Fwmark.permission := 3\<rparr>) \<and>
   writes_back ON_ACCEPT \<and>
   map (\<lambda>(fd', m). Fwmark.permission m)
     (writes (actions (ex_world 2 (ex_fresh\<lparr>Fwmark.permission := 3\<rparr>))
        (processClient ex_decls ex_server \<lparr>getUid = 10001\<rparr> (ex_request 16 ON_ACCEPT 0 0 [5])
           (ex_world 2 (ex_fresh\<lparr>Fwmark.permission := 3\<rparr>))))) = [3] \<and>
   map (\<lambda>(fd', m). Fwmark.permission m)
     (writes (actions (ex_world 2 (ex_fresh\<lparr>Fwmark.permission := 3\<rparr>))
        (processClient ex_decls ex_server \<lparr>getUid = 10001\<rparr> (ex_request 52 ON_CONNECT 0 0 [5])
           (ex_world 2 (ex_fresh\<lparr>Fwmark.permission := 3\<rparr>))))) = [1]"
proof -
  have h: "reaches_switch ex_decls ex_server (ex_request 16 ON_ACCEPT 0 0 [5])
             (ex_world 2 m) 5 2 m" for m
    by (simp add: ex_simps)
  have h': "reaches_switch ex_decls ex_server (ex_request 52 ON_CONNECT 0 0 [5])
              (ex_world 2 m) 5 2 m" for m
    by (simp add: ex_simps)
  have b: "writes_back (cmdId (command (ex_request 16 ON_ACCEPT 0 0 [5])))"
    and b': "writes_back (cmdId (command (ex_request 52 ON_CONNECT 0 0 [5])))"
    by (simp_all add: ex_request_def writes_back_def)
  have n: "\<not> (cmdId (command (ex_request 16 ON_ACCEPT 0 0 [5])) = SELECT_NETWORK \<and>
               FwmarkCommand.netId (command (ex_request 16 ON_ACCEPT 0 0 [5])) = NETID_UNSET)"
    and n': "\<not> (cmdId (command (ex_request 52 ON_CONNECT 0 0 [5])) = SELECT_NETWORK \<and>
                FwmarkCommand.netId (command (ex_request 52 ON_CONNECT 0 0 [5])) = NETID_UNSET)"
    by (simp_all add: ex_request_def)
  show ?thesis
    using h [of "ex_fresh\<lparr>Fwmark.permission := 3\<rparr>"]
      stored_permission [OF h [of "ex_fresh\<lparr>Fwmark.permission := 3\<rparr>"] b n,
        of "\<lparr>getUid = 10001\<rparr>"]
      stored_permission [OF h' [of "ex_fresh\<lparr>Fwmark.permission := 3\<rparr>"] b' n',
        of "\<lparr>getUid = 10001\<rparr>"]
    by (simp add: writes_back_def refused_def ex_request_def ex_server_def ex_controller_def)
qed


end
